theory Spec2Isabelle
  imports Main
begin

section \<open>The smart lock (lock.py): data\<close>

text \<open>
  \<^verbatim>\<open>config_options\<close> is the dictionary read from \<^verbatim>\<open>lock.json\<close>. The program reads
  and writes a fixed set of keys, so it is a record. The two flags are compared with the
  integers \<^verbatim>\<open>0\<close> and \<^verbatim>\<open>1\<close>, assigned \<^verbatim>\<open>0\<close> and \<^verbatim>\<open>1\<close>, and one of them is also
  tested for truthiness, so they are Python integers (a JSON \<^verbatim>\<open>true\<close> is the integer 1
  for every one of these tests). A Python \<^verbatim>\<open>str\<close> is represented by its UTF-8 encoding.
\<close>

record config =
  locked :: int
  mqtt_temp_active :: int
  mqtt_temp_pass :: string
  mqtt_perm_pass :: string
  mqtt_qos :: int
  mqtt_client_id :: string
  mqtt_transport :: string

text \<open>The message handed to a topic callback: its topic and its payload (bytes).\<close>

record message =
  topic :: string
  payload :: string

datatype error = UnicodeDecodeError

text \<open>
  What a callback does to the outside world, in the order in which it does it:
  \<^verbatim>\<open>open("lock.json", "w")\<close> (which truncates the file), \<^verbatim>\<open>json.dump(config_options, f)\<close>
  together with the close at the end of the \<^verbatim>\<open>with\<close> block, and \<^verbatim>\<open>slock.publish\<close> with
  its topic, payload, qos, retain flag and message expiry interval.
\<close>

datatype event =
    Open_w string
  | Json_dump config
  | Publish string string int bool nat

definition MQTT_RESPONSE_TOPIC :: string where
  "MQTT_RESPONSE_TOPIC = ''lock/update''"

section \<open>Decoding the payload\<close>

text \<open>
  \<^verbatim>\<open>message.payload.decode()\<close> decodes UTF-8 strictly and raises \<^verbatim>\<open>UnicodeDecodeError\<close>
  on a malformed sequence (overlong forms, surrogates and code points above U+10FFFF
  included). With a \<^verbatim>\<open>str\<close> represented by its UTF-8 encoding, decoding a well-formed
  payload returns the same bytes.
\<close>

definition utf8_trail :: "nat \<Rightarrow> nat" where
  "utf8_trail b =
     (if 194 \<le> b \<and> b \<le> 223 then 1
      else if 224 \<le> b \<and> b \<le> 239 then 2
      else if 240 \<le> b \<and> b \<le> 244 then 3
      else 0)"

definition utf8_second_lo :: "nat \<Rightarrow> nat" where
  "utf8_second_lo b = (if b = 224 then 160 else if b = 240 then 144 else 128)"

definition utf8_second_hi :: "nat \<Rightarrow> nat" where
  "utf8_second_hi b = (if b = 237 then 159 else if b = 244 then 143 else 191)"

fun utf8_valid :: "nat list \<Rightarrow> bool" where
  "utf8_valid [] = True"
| "utf8_valid (b # bs) =
     (if b < 128 then utf8_valid bs
      else
        0 < utf8_trail b \<and> utf8_trail b \<le> length bs
        \<and> utf8_second_lo b \<le> hd bs \<and> hd bs \<le> utf8_second_hi b
        \<and> list_all (\<lambda>x. 128 \<le> x \<and> x \<le> 191) (take (utf8_trail b - 1) (tl bs))
        \<and> utf8_valid (drop (utf8_trail b) bs))"

definition decode :: "string \<Rightarrow> error + string" where
  "decode bs = (if utf8_valid (map of_char bs) then Inr bs else Inl UnicodeDecodeError)"

section \<open>Utility functions\<close>

text \<open>
  \<^verbatim>\<open>authenticate(config, password)\<close> reads the permanent password and the activity flag
  from its parameter and the temporary password from the global \<^verbatim>\<open>config_options\<close>,
  which is the first argument here. Both callers pass the global as \<^verbatim>\<open>config\<close>.
  The result is 0 (neither), 1 (permanent) or 2 (temporary and active).
\<close>

definition authenticate :: "config \<Rightarrow> config \<Rightarrow> string \<Rightarrow> int" where
  "authenticate config_options config password =
     (if mqtt_perm_pass config = password then 1
      else if mqtt_temp_active config \<noteq> 0 \<and> mqtt_temp_pass config_options = password then 2
      else 0)"

definition publish :: "config \<Rightarrow> string \<Rightarrow> string \<Rightarrow> event list" where
  "publish config tpc msg = [Publish tpc msg (mqtt_qos config) False 30]"

section \<open>Topic callbacks\<close>

text \<open>
  A callback returns the new value of the global \<^verbatim>\<open>config_options\<close> and the events it
  caused, or the exception raised by the decoding in its first statement, before which
  nothing has been changed, written or published.
\<close>

definition toggle_lock :: "config \<Rightarrow> message \<Rightarrow> error + config \<times> event list" where
  "toggle_lock config_options message =
     (case decode (payload message) of
        Inl e \<Rightarrow> Inl e
      | Inr password \<Rightarrow>
          (let redundant =
                 (locked config_options = 0 \<and> topic message = ''lock/unlock''
                  \<or> locked config_options = 1 \<and> topic message = ''lock/lock'');
               authenticated = authenticate config_options config_options password;
               response_message =
                 (if topic message = ''lock/lock'' then ''Failure: Locking Failed''
                  else ''Failure: Unlocking Failed'')
           in if authenticated \<noteq> 0 then
                (let config_options =
                       (if \<not> redundant then
                          (let config_options =
                                 config_options\<lparr>locked :=
                                   (if locked config_options = 1 then 0 else 1)\<rparr>
                           in if authenticated = 2 \<and> locked config_options = 0
                              then config_options\<lparr>mqtt_temp_active := 0\<rparr>
                              else config_options)
                        else config_options);
                     response_prefix = (if redundant then ''Already'' else ''Now'');
                     response_type =
                       (if topic message = ''lock/lock'' then ''Engaged'' else ''Disengaged'');
                     response_message =
                       ''Success: Lock '' @ response_prefix @ '' '' @ response_type
                 in Inr (config_options,
                         [Open_w ''lock.json'', Json_dump config_options]
                         @ publish config_options MQTT_RESPONSE_TOPIC response_message))
              else Inr (config_options,
                        publish config_options MQTT_RESPONSE_TOPIC response_message)))"

definition toggle_temp_password :: "config \<Rightarrow> message \<Rightarrow> error + config \<times> event list" where
  "toggle_temp_password config_options message =
     (case decode (payload message) of
        Inl e \<Rightarrow> Inl e
      | Inr password \<Rightarrow>
          (let redundant =
                 (mqtt_temp_active config_options = 0
                    \<and> topic message = ''lock/password/temp/deactivate''
                  \<or> mqtt_temp_active config_options = 1
                    \<and> topic message = ''lock/password/temp/activate'');
               authenticated = authenticate config_options config_options password;
               response_message =
                 (if topic message = ''lock/password/temp/activate''
                  then ''Failure: Temp Password Activation Failed''
                  else ''Failure: Temp Password Deactivation Failed'')
           in if authenticated = 1 then
                (let config_options =
                       (if \<not> redundant then
                          config_options\<lparr>mqtt_temp_active :=
                            (if mqtt_temp_active config_options = 1 then 0 else 1)\<rparr>
                        else config_options);
                     response_prefix = (if redundant then ''Already'' else ''Now'');
                     response_type =
                       (if topic message = ''lock/password/temp/activate''
                        then ''Activated'' else ''Deactivated'');
                     response_message =
                       ''Success: Temp Password '' @ response_prefix @ '' '' @ response_type
                 in Inr (config_options,
                         [Open_w ''lock.json'', Json_dump config_options]
                         @ publish config_options MQTT_RESPONSE_TOPIC response_message))
              else Inr (config_options,
                        publish config_options MQTT_RESPONSE_TOPIC response_message)))"

text \<open>
  The callback configuration (\<^verbatim>\<open>message_callback_add\<close>): the two lock topics go to
  \<^verbatim>\<open>toggle_lock\<close>, the two temporary-password topics to \<^verbatim>\<open>toggle_temp_password\<close>. No
  other topic is subscribed and no general \<^verbatim>\<open>on_message\<close> is set, so a message on
  another topic does nothing.
\<close>

definition on_message :: "config \<Rightarrow> message \<Rightarrow> error + config \<times> event list" where
  "on_message config_options message =
     (if topic message = ''lock/lock'' \<or> topic message = ''lock/unlock''
      then toggle_lock config_options message
      else if topic message = ''lock/password/temp/activate''
              \<or> topic message = ''lock/password/temp/deactivate''
      then toggle_temp_password config_options message
      else Inr (config_options, []))"

section \<open>The file on disk and the response channel\<close>

text \<open>
  The content of \<^verbatim>\<open>lock.json\<close> after an event: opening it for writing empties it
  (\<open>None\<close>), the dump stores the whole record, a publish leaves it alone.
  \<open>disk_trace d evs\<close> lists the content before the first event and after each event,
  that is, what a run that stops at that point leaves behind.
\<close>

fun disk_step :: "config option \<Rightarrow> event \<Rightarrow> config option" where
  "disk_step d (Open_w f) = (if f = ''lock.json'' then None else d)"
| "disk_step d (Json_dump c) = Some c"
| "disk_step d (Publish t m q r x) = d"

fun disk_trace :: "config option \<Rightarrow> event list \<Rightarrow> config option list" where
  "disk_trace d [] = [d]"
| "disk_trace d (e # evs) = d # disk_trace (disk_step d e) evs"

text \<open>The topic and payload of every publish among the events, in order.\<close>

fun published :: "event list \<Rightarrow> (string \<times> string) list" where
  "published [] = []"
| "published (Publish t m q r x # evs) = (t, m) # published evs"
| "published (e # evs) = published evs"

text \<open>The payloads a message makes the program publish (none when the callback raises).\<close>

definition response_of :: "config \<Rightarrow> message \<Rightarrow> string list" where
  "response_of c m =
     (case on_message c m of Inl e \<Rightarrow> [] | Inr (c', evs) \<Rightarrow> map snd (published evs))"

section \<open>Example states\<close>

text \<open>Locked, temporary password active and different from the permanent one.\<close>

definition cfg_D :: config where
  "cfg_D = \<lparr>locked = 1, mqtt_temp_active = 1, mqtt_temp_pass = ''1234'',
            mqtt_perm_pass = ''admin'', mqtt_qos = 1, mqtt_client_id = ''slock'',
            mqtt_transport = ''tcp''\<rparr>"

text \<open>Unlocked, temporary password inactive.\<close>

definition cfg_U :: config where
  "cfg_U = \<lparr>locked = 0, mqtt_temp_active = 0, mqtt_temp_pass = ''1234'',
            mqtt_perm_pass = ''admin'', mqtt_qos = 1, mqtt_client_id = ''slock'',
            mqtt_transport = ''tcp''\<rparr>"

text \<open>Unlocked, temporary password active.\<close>

definition cfg_UA :: config where
  "cfg_UA = \<lparr>locked = 0, mqtt_temp_active = 1, mqtt_temp_pass = ''1234'',
             mqtt_perm_pass = ''admin'', mqtt_qos = 1, mqtt_client_id = ''slock'',
             mqtt_transport = ''tcp''\<rparr>"

text \<open>Locked, temporary password active and equal to the permanent one.\<close>

definition cfg_same :: config where
  "cfg_same = \<lparr>locked = 1, mqtt_temp_active = 1, mqtt_temp_pass = ''1234'',
               mqtt_perm_pass = ''1234'', mqtt_qos = 1, mqtt_client_id = ''slock'',
               mqtt_transport = ''tcp''\<rparr>"

text \<open>Locked, temporary password inactive and equal to the permanent one.\<close>

definition cfg_off_same :: config where
  "cfg_off_same = \<lparr>locked = 1, mqtt_temp_active = 0, mqtt_temp_pass = ''1234'',
                   mqtt_perm_pass = ''1234'', mqtt_qos = 1, mqtt_client_id = ''slock'',
                   mqtt_transport = ''tcp''\<rparr>"

section \<open>Auxiliary facts\<close>

lemmas handler_defs =
  toggle_lock_def toggle_temp_password_def authenticate_def publish_def
  MQTT_RESPONSE_TOPIC_def Let_def

text \<open>The lock flag after an authorized lock or unlock message.\<close>

lemma toggle_lock_locked:
  assumes "decode (payload m) = Inr p" and "toggle_lock c m = Inr (c1, evs1)"
    and "authenticate c c p \<noteq> 0"
    and "topic m = ''lock/lock'' \<or> topic m = ''lock/unlock''"
  shows "locked c1 = (if topic m = ''lock/lock'' then 1
                      else if locked c = 0 then 0
                      else if locked c = 1 then 0 else 1)"
  using assms
  by (auto simp: toggle_lock_def publish_def Let_def split: if_splits)

section \<open>Classification\<close>

text \<open>
  C2. \<^verbatim>\<open>authenticate\<close> returns 1 (permanent) exactly when the presented password is
  the permanent one; otherwise 2 (temporary) when the temporary password is active and
  is the presented one; otherwise 0. So a password that is neither the permanent one
  nor the active temporary one gets 0.
\<close>

theorem authenticate_classifies:
  "(authenticate g c p = 1 \<longleftrightarrow> p = mqtt_perm_pass c)
   \<and> (p \<noteq> mqtt_perm_pass c \<longrightarrow>
        (mqtt_temp_active c \<noteq> 0 \<and> p = mqtt_temp_pass g \<longrightarrow> authenticate g c p = 2)
        \<and> (\<not> (mqtt_temp_active c \<noteq> 0 \<and> p = mqtt_temp_pass g) \<longrightarrow> authenticate g c p = 0))"
  by (auto simp: authenticate_def)

theorem authenticate_classifies_witness:
  "authenticate cfg_D cfg_D ''admin'' = 1
   \<and> authenticate cfg_D cfg_D ''1234'' = 2
   \<and> authenticate cfg_D cfg_D ''0000'' = 0"
  using authenticate_classifies [of cfg_D cfg_D "''admin''"]
        authenticate_classifies [of cfg_D cfg_D "''1234''"]
        authenticate_classifies [of cfg_D cfg_D "''0000''"]
  by (simp add: cfg_D_def)

text \<open>
  With the temporary password inactive and equal to the permanent one, presenting it
  is classified 1 (permanent), not 0.
\<close>

theorem inactive_temp_counterexample:
  "mqtt_temp_active cfg_off_same = 0
   \<and> authenticate cfg_off_same cfg_off_same (mqtt_temp_pass cfg_off_same) = 1"
  by (simp add: authenticate_def cfg_off_same_def)

text \<open>
  C4 (amended). When the temporary password is inactive, presenting its value is never
  classified 2 (temporary): it is classified 0 when it differs from the permanent
  password, and 1 (permanent) when the two coincide.
\<close>

theorem inactive_temp_never_temporary:
  assumes "mqtt_temp_active c = 0"
  shows "authenticate c c (mqtt_temp_pass c) \<noteq> 2
       \<and> (mqtt_temp_pass c \<noteq> mqtt_perm_pass c \<longrightarrow> authenticate c c (mqtt_temp_pass c) = 0)
       \<and> (mqtt_temp_pass c = mqtt_perm_pass c \<longrightarrow> authenticate c c (mqtt_temp_pass c) = 1)"
  using assms by (simp add: authenticate_def)

theorem inactive_temp_never_temporary_witness:
  "mqtt_temp_active cfg_U = 0
   \<and> mqtt_temp_pass cfg_U \<noteq> mqtt_perm_pass cfg_U
   \<and> authenticate cfg_U cfg_U (mqtt_temp_pass cfg_U) = 0
   \<and> mqtt_temp_active cfg_off_same = 0
   \<and> mqtt_temp_pass cfg_off_same = mqtt_perm_pass cfg_off_same
   \<and> authenticate cfg_off_same cfg_off_same (mqtt_temp_pass cfg_off_same) \<noteq> 2"
  using inactive_temp_never_temporary [of cfg_U]
        inactive_temp_never_temporary [of cfg_off_same]
  by (simp add: cfg_U_def cfg_off_same_def)

section \<open>The lock callback\<close>

text \<open>
  With the temporary password active and equal to the permanent one, an unlock that
  presents it is classified permanent: the lock opens and the temporary password stays
  active.
\<close>

theorem unlock_with_temp_value_counterexample:
  "locked cfg_same = 1 \<and> mqtt_temp_active cfg_same = 1
   \<and> toggle_lock cfg_same \<lparr>topic = ''lock/unlock'', payload = mqtt_temp_pass cfg_same\<rparr>
     = Inr (cfg_same\<lparr>locked := 0\<rparr>,
            [Open_w ''lock.json'', Json_dump (cfg_same\<lparr>locked := 0\<rparr>),
             Publish ''lock/update'' ''Success: Lock Now Disengaged'' 1 False 30])
   \<and> mqtt_temp_active (cfg_same\<lparr>locked := 0\<rparr>) = 1"
  by (simp add: handler_defs decode_def cfg_same_def)

text \<open>
  C1 (amended). In a state that is locked, with the temporary password active and
  different from the permanent one, an unlock message whose payload is the temporary
  password unlocks, deactivates the temporary password, saves the record and publishes
  \<^verbatim>\<open>Success: Lock Now Disengaged\<close>.
\<close>

theorem unlock_with_temporary_retires:
  assumes "locked c = 1" and "mqtt_temp_active c \<noteq> 0"
    and "topic m = ''lock/unlock''"
    and "decode (payload m) = Inr (mqtt_temp_pass c)"
    and "mqtt_temp_pass c \<noteq> mqtt_perm_pass c"
  shows "toggle_lock c m
         = Inr (c\<lparr>locked := 0, mqtt_temp_active := 0\<rparr>,
                [Open_w ''lock.json'', Json_dump (c\<lparr>locked := 0, mqtt_temp_active := 0\<rparr>),
                 Publish ''lock/update'' ''Success: Lock Now Disengaged'' (mqtt_qos c) False 30])"
  using assms by (simp add: handler_defs)

theorem unlock_with_temporary_retires_witness:
  "toggle_lock cfg_D \<lparr>topic = ''lock/unlock'', payload = ''1234''\<rparr>
   = Inr (cfg_D\<lparr>locked := 0, mqtt_temp_active := 0\<rparr>,
          [Open_w ''lock.json'', Json_dump (cfg_D\<lparr>locked := 0, mqtt_temp_active := 0\<rparr>),
           Publish ''lock/update'' ''Success: Lock Now Disengaged'' 1 False 30])"
  using unlock_with_temporary_retires
          [of cfg_D "\<lparr>topic = ''lock/unlock'', payload = ''1234''\<rparr>"]
  by (simp add: cfg_D_def decode_def)

text \<open>
  An unlock with the active temporary password retires it, so the same message sent
  again is refused: the second response is the failure message and nothing is saved.
\<close>

theorem repeated_unlock_counterexample:
  "authenticate cfg_D cfg_D ''1234'' \<noteq> 0
   \<and> toggle_lock cfg_D \<lparr>topic = ''lock/unlock'', payload = ''1234''\<rparr>
     = Inr (cfg_D\<lparr>locked := 0, mqtt_temp_active := 0\<rparr>,
            [Open_w ''lock.json'', Json_dump (cfg_D\<lparr>locked := 0, mqtt_temp_active := 0\<rparr>),
             Publish ''lock/update'' ''Success: Lock Now Disengaged'' 1 False 30])
   \<and> toggle_lock (cfg_D\<lparr>locked := 0, mqtt_temp_active := 0\<rparr>)
        \<lparr>topic = ''lock/unlock'', payload = ''1234''\<rparr>
     = Inr (cfg_D\<lparr>locked := 0, mqtt_temp_active := 0\<rparr>,
            [Publish ''lock/update'' ''Failure: Unlocking Failed'' 1 False 30])"
  by (simp add: handler_defs decode_def cfg_D_def)

text \<open>
  C5 (amended). When a lock or unlock message is sent twice in a row and is authorized
  both times, the second call leaves the whole state, \<open>locked\<close> included, as the first
  call left it, saves the record again and publishes the success message with the
  \<^verbatim>\<open>Already\<close> prefix. (The flag \<open>locked\<close> is 0 or 1.)
\<close>

theorem repeated_lock_command:
  assumes "topic m = ''lock/lock'' \<or> topic m = ''lock/unlock''"
    and "locked c = 0 \<or> locked c = 1"
    and "decode (payload m) = Inr p"
    and "authenticate c c p \<noteq> 0"
    and "toggle_lock c m = Inr (c1, evs1)"
    and "authenticate c1 c1 p \<noteq> 0"
  shows "toggle_lock c1 m
         = Inr (c1, [Open_w ''lock.json'', Json_dump c1,
                     Publish ''lock/update''
                       (if topic m = ''lock/lock'' then ''Success: Lock Already Engaged''
                        else ''Success: Lock Already Disengaged'')
                       (mqtt_qos c1) False 30])"
proof -
  have l1: "locked c1 = (if topic m = ''lock/lock'' then 1 else 0)"
    using toggle_lock_locked [OF assms(3) assms(5) assms(4) assms(1)] assms(2) by auto
  from assms(1) show ?thesis
  proof
    assume t: "topic m = ''lock/lock''"
    with l1 have "locked c1 = 1" by simp
    with t assms(3) assms(6) show ?thesis
      by (simp add: toggle_lock_def publish_def MQTT_RESPONSE_TOPIC_def Let_def)
  next
    assume t: "topic m = ''lock/unlock''"
    with l1 have "locked c1 = 0" by simp
    with t assms(3) assms(6) show ?thesis
      by (simp add: toggle_lock_def publish_def MQTT_RESPONSE_TOPIC_def Let_def)
  qed
qed

theorem repeated_lock_command_witness:
  "toggle_lock cfg_D \<lparr>topic = ''lock/unlock'', payload = ''admin''\<rparr>
   = Inr (cfg_D\<lparr>locked := 0\<rparr>,
          [Open_w ''lock.json'', Json_dump (cfg_D\<lparr>locked := 0\<rparr>),
           Publish ''lock/update'' ''Success: Lock Now Disengaged'' 1 False 30])
   \<and> toggle_lock (cfg_D\<lparr>locked := 0\<rparr>) \<lparr>topic = ''lock/unlock'', payload = ''admin''\<rparr>
     = Inr (cfg_D\<lparr>locked := 0\<rparr>,
            [Open_w ''lock.json'', Json_dump (cfg_D\<lparr>locked := 0\<rparr>),
             Publish ''lock/update'' ''Success: Lock Already Disengaged'' 1 False 30])"
proof -
  have first: "toggle_lock cfg_D \<lparr>topic = ''lock/unlock'', payload = ''admin''\<rparr>
     = Inr (cfg_D\<lparr>locked := 0\<rparr>,
            [Open_w ''lock.json'', Json_dump (cfg_D\<lparr>locked := 0\<rparr>),
             Publish ''lock/update'' ''Success: Lock Now Disengaged'' 1 False 30])"
    by (simp add: handler_defs decode_def cfg_D_def)
  have second: "toggle_lock (cfg_D\<lparr>locked := 0\<rparr>)
        \<lparr>topic = ''lock/unlock'', payload = ''admin''\<rparr>
     = Inr (cfg_D\<lparr>locked := 0\<rparr>,
            [Open_w ''lock.json'', Json_dump (cfg_D\<lparr>locked := 0\<rparr>),
             Publish ''lock/update'' ''Success: Lock Already Disengaged'' 1 False 30])"
    using repeated_lock_command
            [of "\<lparr>topic = ''lock/unlock'', payload = ''admin''\<rparr>" cfg_D "''admin''",
             OF _ _ _ _ first]
    by (simp add: authenticate_def decode_def cfg_D_def)
  from first second show ?thesis by simp
qed

text \<open>
  C6. In a state that is already unlocked and has the temporary password active, an
  unlock message that presents the temporary password is redundant: nothing in the
  state changes, so the temporary password stays active; the record is saved and the
  response is \<^verbatim>\<open>Success: Lock Already Disengaged\<close>. (This holds whether the password
  is classified temporary or, being also the permanent one, permanent.)
\<close>

theorem redundant_unlock_keeps_temporary:
  assumes "locked c = 0" and "mqtt_temp_active c \<noteq> 0"
    and "topic m = ''lock/unlock''"
    and "decode (payload m) = Inr (mqtt_temp_pass c)"
  shows "toggle_lock c m
         = Inr (c, [Open_w ''lock.json'', Json_dump c,
                    Publish ''lock/update'' ''Success: Lock Already Disengaged''
                      (mqtt_qos c) False 30])"
  using assms by (simp add: handler_defs)

theorem redundant_unlock_keeps_temporary_witness:
  "authenticate cfg_UA cfg_UA ''1234'' = 2
   \<and> toggle_lock cfg_UA \<lparr>topic = ''lock/unlock'', payload = ''1234''\<rparr>
     = Inr (cfg_UA, [Open_w ''lock.json'', Json_dump cfg_UA,
                     Publish ''lock/update'' ''Success: Lock Already Disengaged'' 1 False 30])
   \<and> mqtt_temp_active cfg_UA = 1"
  using redundant_unlock_keeps_temporary
          [of cfg_UA "\<lparr>topic = ''lock/unlock'', payload = ''1234''\<rparr>"]
  by (simp add: authenticate_def cfg_UA_def decode_def)

text \<open>
  C9. A message on \<^verbatim>\<open>lock/lock\<close> leaves \<open>mqtt_temp_active\<close> as it was, whatever the
  state and the presented password; when the message is authorized the lock flag is 1
  afterwards, so the retirement test (classification 2 and lock flag 0 after the toggle)
  cannot hold.
\<close>

theorem lock_keeps_temp_active:
  assumes "topic m = ''lock/lock''" and "decode (payload m) = Inr p"
  shows "\<exists>c' evs. toggle_lock c m = Inr (c', evs)
           \<and> mqtt_temp_active c' = mqtt_temp_active c
           \<and> (authenticate c c p \<noteq> 0 \<longrightarrow> locked c' = 1)"
  using assms by (simp add: handler_defs)

theorem lock_keeps_temp_active_witness:
  "\<exists>c' evs. toggle_lock cfg_UA \<lparr>topic = ''lock/lock'', payload = ''1234''\<rparr> = Inr (c', evs)
     \<and> mqtt_temp_active c' = 1 \<and> locked c' = 1"
  using lock_keeps_temp_active
          [of "\<lparr>topic = ''lock/lock'', payload = ''1234''\<rparr>" "''1234''" cfg_UA]
  by (simp add: authenticate_def cfg_UA_def decode_def)

section \<open>Unauthorized messages\<close>

text \<open>
  With the temporary password active and equal to the permanent one, a deactivation
  that presents it is classified permanent and is carried out. And a payload that is
  not well-formed UTF-8, which is no credential at all, gets no failure response: the
  callback raises in its first statement and publishes nothing.
\<close>

theorem temp_value_manages_itself_counterexample:
  "mqtt_temp_active cfg_same \<noteq> 0
   \<and> toggle_temp_password cfg_same
        \<lparr>topic = ''lock/password/temp/deactivate'', payload = mqtt_temp_pass cfg_same\<rparr>
     = Inr (cfg_same\<lparr>mqtt_temp_active := 0\<rparr>,
            [Open_w ''lock.json'', Json_dump (cfg_same\<lparr>mqtt_temp_active := 0\<rparr>),
             Publish ''lock/update'' ''Success: Temp Password Now Deactivated'' 1 False 30])
   \<and> toggle_lock cfg_D \<lparr>topic = ''lock/unlock'', payload = [CHR 0xFF]\<rparr>
     = Inl UnicodeDecodeError
   \<and> toggle_temp_password cfg_D
        \<lparr>topic = ''lock/password/temp/activate'', payload = [CHR 0xFF]\<rparr>
     = Inl UnicodeDecodeError"
  by (simp add: handler_defs decode_def cfg_same_def cfg_D_def
        utf8_trail_def utf8_second_lo_def utf8_second_hi_def)

text \<open>
  C3 (amended). For every state and every message. When the payload decodes and the
  presented password is classified 0, the lock callback changes no field of the state,
  writes nothing and publishes the failure message of its topic; when it is classified
  0 or 2, the temporary-password callback does the same. In particular, with the
  temporary password active and different from the permanent one, presenting it is
  classified 2, so an activation or deactivation with it is refused. When the payload
  does not decode, either callback raises before anything is changed, written or
  published, so no response is emitted at all.
\<close>

theorem unauthorized_no_effect:
  "case decode (payload m) of
     Inl e \<Rightarrow> toggle_lock c m = Inl e \<and> toggle_temp_password c m = Inl e
   | Inr p \<Rightarrow>
       (authenticate c c p = 0 \<longrightarrow>
          toggle_lock c m
          = Inr (c, [Publish ''lock/update''
                       (if topic m = ''lock/lock'' then ''Failure: Locking Failed''
                        else ''Failure: Unlocking Failed'')
                       (mqtt_qos c) False 30]))
     \<and> (authenticate c c p = 0 \<or> authenticate c c p = 2 \<longrightarrow>
          toggle_temp_password c m
          = Inr (c, [Publish ''lock/update''
                       (if topic m = ''lock/password/temp/activate''
                        then ''Failure: Temp Password Activation Failed''
                        else ''Failure: Temp Password Deactivation Failed'')
                       (mqtt_qos c) False 30]))
     \<and> (mqtt_temp_active c \<noteq> 0 \<and> p = mqtt_temp_pass c
          \<and> mqtt_temp_pass c \<noteq> mqtt_perm_pass c \<longrightarrow>
          authenticate c c p = 2
          \<and> toggle_temp_password c m
            = Inr (c, [Publish ''lock/update''
                         (if topic m = ''lock/password/temp/activate''
                          then ''Failure: Temp Password Activation Failed''
                          else ''Failure: Temp Password Deactivation Failed'')
                         (mqtt_qos c) False 30]))"
proof (cases "decode (payload m)")
  case (Inl e)
  then show ?thesis
    by (simp add: toggle_lock_def toggle_temp_password_def)
next
  case (Inr p)
  then show ?thesis
    by (simp add: handler_defs)
qed

theorem unauthorized_no_effect_witness:
  "authenticate cfg_D cfg_D ''0000'' = 0
   \<and> toggle_lock cfg_D \<lparr>topic = ''lock/unlock'', payload = ''0000''\<rparr>
     = Inr (cfg_D, [Publish ''lock/update'' ''Failure: Unlocking Failed'' 1 False 30])
   \<and> authenticate cfg_D cfg_D ''1234'' = 2
   \<and> toggle_temp_password cfg_D
        \<lparr>topic = ''lock/password/temp/activate'', payload = ''1234''\<rparr>
     = Inr (cfg_D,
            [Publish ''lock/update'' ''Failure: Temp Password Activation Failed'' 1 False 30])
   \<and> toggle_temp_password cfg_D
        \<lparr>topic = ''lock/password/temp/deactivate'', payload = ''1234''\<rparr>
     = Inr (cfg_D,
            [Publish ''lock/update'' ''Failure: Temp Password Deactivation Failed'' 1 False 30])
   \<and> decode [CHR 0xFF] = Inl UnicodeDecodeError
   \<and> toggle_lock cfg_D \<lparr>topic = ''lock/lock'', payload = [CHR 0xFF]\<rparr>
     = Inl UnicodeDecodeError"
  using unauthorized_no_effect
          [where m = "\<lparr>topic = ''lock/unlock'', payload = ''0000''\<rparr>" and c = cfg_D]
        unauthorized_no_effect
          [where m = "\<lparr>topic = ''lock/password/temp/activate'', payload = ''1234''\<rparr>"
             and c = cfg_D]
        unauthorized_no_effect
          [where m = "\<lparr>topic = ''lock/password/temp/deactivate'', payload = ''1234''\<rparr>"
             and c = cfg_D]
        unauthorized_no_effect
          [where m = "\<lparr>topic = ''lock/lock'', payload = [CHR 0xFF]\<rparr>" and c = cfg_D]
  by (simp add: authenticate_def decode_def cfg_D_def
        utf8_trail_def utf8_second_lo_def utf8_second_hi_def)

section \<open>Frame\<close>

text \<open>
  C10. A callback changes at most \<open>locked\<close> and \<open>mqtt_temp_active\<close>: the permanent and
  temporary passwords, the qos, the client id (and the transport) are as before. The
  temporary-password callback changes at most \<open>mqtt_temp_active\<close>, so never \<open>locked\<close>.
  The lock callback leaves \<open>mqtt_temp_active\<close> alone or sets it to 0, the latter only
  when the password was classified 2 and the lock flag is 0 afterwards.
\<close>

theorem callbacks_frame:
  assumes "decode (payload m) = Inr p"
  shows "(\<exists>c' evs. toggle_lock c m = Inr (c', evs)
            \<and> c' = c\<lparr>locked := locked c', mqtt_temp_active := mqtt_temp_active c'\<rparr>
            \<and> mqtt_perm_pass c' = mqtt_perm_pass c \<and> mqtt_temp_pass c' = mqtt_temp_pass c
            \<and> mqtt_qos c' = mqtt_qos c \<and> mqtt_client_id c' = mqtt_client_id c
            \<and> (mqtt_temp_active c' = mqtt_temp_active c
                \<or> mqtt_temp_active c' = 0 \<and> authenticate c c p = 2 \<and> locked c' = 0))
       \<and> (\<exists>c' evs. toggle_temp_password c m = Inr (c', evs)
            \<and> c' = c\<lparr>mqtt_temp_active := mqtt_temp_active c'\<rparr>
            \<and> locked c' = locked c
            \<and> mqtt_perm_pass c' = mqtt_perm_pass c \<and> mqtt_temp_pass c' = mqtt_temp_pass c
            \<and> mqtt_qos c' = mqtt_qos c \<and> mqtt_client_id c' = mqtt_client_id c)"
  using assms by (simp add: handler_defs)

theorem callbacks_frame_witness:
  "(\<exists>c' evs. toggle_lock cfg_D \<lparr>topic = ''lock/unlock'', payload = ''1234''\<rparr> = Inr (c', evs)
      \<and> mqtt_perm_pass c' = ''admin'' \<and> mqtt_temp_pass c' = ''1234''
      \<and> mqtt_qos c' = 1 \<and> mqtt_client_id c' = ''slock'')
   \<and> (\<exists>c' evs. toggle_temp_password cfg_D
                   \<lparr>topic = ''lock/password/temp/deactivate'', payload = ''admin''\<rparr>
                 = Inr (c', evs)
      \<and> locked c' = 1
      \<and> mqtt_perm_pass c' = ''admin'' \<and> mqtt_temp_pass c' = ''1234''
      \<and> mqtt_qos c' = 1 \<and> mqtt_client_id c' = ''slock'')"
  using callbacks_frame
          [where m = "\<lparr>topic = ''lock/unlock'', payload = ''1234''\<rparr>"
             and p = "''1234''" and c = cfg_D]
        callbacks_frame
          [where m = "\<lparr>topic = ''lock/password/temp/deactivate'', payload = ''admin''\<rparr>"
             and p = "''admin''" and c = cfg_D]
  by (simp add: handler_defs decode_def cfg_D_def)

section \<open>Saving and responding\<close>

text \<open>
  The save is an overwrite in place. In the run of an authorized unlock the file holds
  the old record, then nothing (after the truncating open), then the new record; the
  second content is neither the old nor the new record.
\<close>

theorem save_in_place_counterexample:
  "toggle_lock cfg_D \<lparr>topic = ''lock/unlock'', payload = ''admin''\<rparr>
     = Inr (cfg_D\<lparr>locked := 0\<rparr>,
            [Open_w ''lock.json'', Json_dump (cfg_D\<lparr>locked := 0\<rparr>),
             Publish ''lock/update'' ''Success: Lock Now Disengaged'' 1 False 30])
   \<and> disk_trace (Some cfg_D)
        [Open_w ''lock.json'', Json_dump (cfg_D\<lparr>locked := 0\<rparr>),
         Publish ''lock/update'' ''Success: Lock Now Disengaged'' 1 False 30]
     = [Some cfg_D, None, Some (cfg_D\<lparr>locked := 0\<rparr>), Some (cfg_D\<lparr>locked := 0\<rparr>)]"
  by (simp add: handler_defs decode_def cfg_D_def)

text \<open>
  C7 (amended). For every authorized message (classification not 0 for the lock
  callback, 1 for the temporary-password callback) the callback opens \<^verbatim>\<open>lock.json\<close>
  for writing, dumps the whole new record and only then publishes the response: when
  the response is published the file holds the new record. A run that stops before the
  open leaves the file as it was; the save overwrites in place, so a run that stops
  between the open and the dump leaves the file empty.
\<close>

theorem save_precedes_response:
  assumes "decode (payload m) = Inr p"
  shows "(authenticate c c p \<noteq> 0 \<longrightarrow>
           (\<exists>c' evs r. toggle_lock c m = Inr (c', evs)
              \<and> evs = [Open_w ''lock.json'', Json_dump c',
                        Publish ''lock/update'' r (mqtt_qos c) False 30]
              \<and> disk_trace d evs = [d, None, Some c', Some c']))
       \<and> (authenticate c c p = 1 \<longrightarrow>
           (\<exists>c' evs r. toggle_temp_password c m = Inr (c', evs)
              \<and> evs = [Open_w ''lock.json'', Json_dump c',
                        Publish ''lock/update'' r (mqtt_qos c) False 30]
              \<and> disk_trace d evs = [d, None, Some c', Some c']))"
  using assms
  by (simp add: toggle_lock_def toggle_temp_password_def publish_def
        MQTT_RESPONSE_TOPIC_def Let_def)

theorem save_precedes_response_witness:
  "authenticate cfg_U cfg_U ''admin'' = 1
   \<and> (\<exists>c' evs r. toggle_lock cfg_U \<lparr>topic = ''lock/lock'', payload = ''admin''\<rparr>
                   = Inr (c', evs)
        \<and> evs = [Open_w ''lock.json'', Json_dump c', Publish ''lock/update'' r 1 False 30]
        \<and> disk_trace (Some cfg_U) evs = [Some cfg_U, None, Some c', Some c'])
   \<and> (\<exists>c' evs r. toggle_temp_password cfg_U
                     \<lparr>topic = ''lock/password/temp/activate'', payload = ''admin''\<rparr>
                   = Inr (c', evs)
        \<and> evs = [Open_w ''lock.json'', Json_dump c', Publish ''lock/update'' r 1 False 30]
        \<and> disk_trace (Some cfg_U) evs = [Some cfg_U, None, Some c', Some c'])"
  using save_precedes_response
          [where m = "\<lparr>topic = ''lock/lock'', payload = ''admin''\<rparr>"
             and p = "''admin''" and c = cfg_U and d = "Some cfg_U"]
        save_precedes_response
          [where m = "\<lparr>topic = ''lock/password/temp/activate'', payload = ''admin''\<rparr>"
             and p = "''admin''" and c = cfg_U and d = "Some cfg_U"]
  by (simp add: authenticate_def decode_def cfg_U_def)

section \<open>The vocabulary of responses\<close>

text \<open>
  The program publishes twelve different responses, not eight: eight success messages
  and four failure messages. Each of the following twelve messages is answered
  differently.
\<close>

theorem twelve_responses_counterexample:
  "response_of cfg_D \<lparr>topic = ''lock/lock'', payload = ''admin''\<rparr>
     = [''Success: Lock Already Engaged'']
   \<and> response_of cfg_D \<lparr>topic = ''lock/unlock'', payload = ''admin''\<rparr>
     = [''Success: Lock Now Disengaged'']
   \<and> response_of cfg_D \<lparr>topic = ''lock/lock'', payload = ''0000''\<rparr>
     = [''Failure: Locking Failed'']
   \<and> response_of cfg_D \<lparr>topic = ''lock/unlock'', payload = ''0000''\<rparr>
     = [''Failure: Unlocking Failed'']
   \<and> response_of cfg_D \<lparr>topic = ''lock/password/temp/activate'', payload = ''admin''\<rparr>
     = [''Success: Temp Password Already Activated'']
   \<and> response_of cfg_D \<lparr>topic = ''lock/password/temp/deactivate'', payload = ''admin''\<rparr>
     = [''Success: Temp Password Now Deactivated'']
   \<and> response_of cfg_D \<lparr>topic = ''lock/password/temp/activate'', payload = ''0000''\<rparr>
     = [''Failure: Temp Password Activation Failed'']
   \<and> response_of cfg_D \<lparr>topic = ''lock/password/temp/deactivate'', payload = ''0000''\<rparr>
     = [''Failure: Temp Password Deactivation Failed'']
   \<and> response_of cfg_U \<lparr>topic = ''lock/lock'', payload = ''admin''\<rparr>
     = [''Success: Lock Now Engaged'']
   \<and> response_of cfg_U \<lparr>topic = ''lock/unlock'', payload = ''admin''\<rparr>
     = [''Success: Lock Already Disengaged'']
   \<and> response_of cfg_U \<lparr>topic = ''lock/password/temp/activate'', payload = ''admin''\<rparr>
     = [''Success: Temp Password Now Activated'']
   \<and> response_of cfg_U \<lparr>topic = ''lock/password/temp/deactivate'', payload = ''admin''\<rparr>
     = [''Success: Temp Password Already Deactivated'']
   \<and> 8 < card {''Success: Lock Already Engaged'', ''Success: Lock Now Disengaged'',
                 ''Failure: Locking Failed'', ''Failure: Unlocking Failed'',
                 ''Success: Temp Password Already Activated'',
                 ''Success: Temp Password Now Deactivated'',
                 ''Failure: Temp Password Activation Failed'',
                 ''Failure: Temp Password Deactivation Failed'',
                 ''Success: Lock Now Engaged'', ''Success: Lock Already Disengaged'',
                 ''Success: Temp Password Now Activated'',
                 ''Success: Temp Password Already Deactivated''}"
  by (simp add: response_of_def on_message_def handler_defs decode_def cfg_D_def cfg_U_def)

text \<open>
  C8 (amended). For every state and every message on one of the four routed topics
  whose payload decodes, exactly one response is published, on \<^verbatim>\<open>lock/update\<close>, and it
  is one of the twelve fixed strings below (eight success and four failure messages).
  When the payload does not decode the callback raises and nothing is published.
\<close>

theorem responses_closed_vocabulary:
  assumes "topic m = ''lock/lock'' \<or> topic m = ''lock/unlock''
           \<or> topic m = ''lock/password/temp/activate''
           \<or> topic m = ''lock/password/temp/deactivate''"
  shows "case decode (payload m) of
           Inl e \<Rightarrow> on_message c m = Inl e
         | Inr p \<Rightarrow>
             (\<exists>c' evs r. on_message c m = Inr (c', evs)
                \<and> published evs = [(''lock/update'', r)]
                \<and> r \<in> {''Success: Lock Now Engaged'', ''Success: Lock Already Engaged'',
                         ''Success: Lock Now Disengaged'', ''Success: Lock Already Disengaged'',
                         ''Failure: Locking Failed'', ''Failure: Unlocking Failed'',
                         ''Success: Temp Password Now Activated'',
                         ''Success: Temp Password Already Activated'',
                         ''Success: Temp Password Now Deactivated'',
                         ''Success: Temp Password Already Deactivated'',
                         ''Failure: Temp Password Activation Failed'',
                         ''Failure: Temp Password Deactivation Failed''})"
proof (cases "decode (payload m)")
  case (Inl e)
  with assms show ?thesis
    by (auto simp: on_message_def toggle_lock_def toggle_temp_password_def)
next
  case (Inr p)
  consider (l) "topic m = ''lock/lock''" | (u) "topic m = ''lock/unlock''"
    | (a) "topic m = ''lock/password/temp/activate''"
    | (d) "topic m = ''lock/password/temp/deactivate''"
    using assms by blast
  then show ?thesis
  proof cases
    case l
    with Inr show ?thesis
      by (simp add: on_message_def toggle_lock_def publish_def MQTT_RESPONSE_TOPIC_def Let_def)
  next
    case u
    with Inr show ?thesis
      by (simp add: on_message_def toggle_lock_def publish_def MQTT_RESPONSE_TOPIC_def Let_def)
  next
    case a
    with Inr show ?thesis
      by (simp add: on_message_def toggle_temp_password_def publish_def
            MQTT_RESPONSE_TOPIC_def Let_def)
  next
    case d
    with Inr show ?thesis
      by (simp add: on_message_def toggle_temp_password_def publish_def
            MQTT_RESPONSE_TOPIC_def Let_def)
  qed
qed

theorem responses_closed_vocabulary_witness:
  "decode ''1234'' = Inr ''1234''
   \<and> (\<exists>c' evs r. on_message cfg_D \<lparr>topic = ''lock/unlock'', payload = ''1234''\<rparr>
                   = Inr (c', evs)
        \<and> published evs = [(''lock/update'', r)]
        \<and> r = ''Success: Lock Now Disengaged'')
   \<and> on_message cfg_D \<lparr>topic = ''lock/unlock'', payload = [CHR 0xFF]\<rparr>
     = Inl UnicodeDecodeError"
  using responses_closed_vocabulary
          [where m = "\<lparr>topic = ''lock/unlock'', payload = ''1234''\<rparr>" and c = cfg_D]
        responses_closed_vocabulary
          [where m = "\<lparr>topic = ''lock/unlock'', payload = [CHR 0xFF]\<rparr>" and c = cfg_D]
  by (simp add: on_message_def handler_defs decode_def cfg_D_def
        utf8_trail_def utf8_second_lo_def utf8_second_hi_def)

end
